theory Spec2Isabelle
  imports Complex_Main
begin

section \<open>Data model of ProfiledPIDCommand.h\<close>

text \<open>
  \<^verbatim>\<open>frc::TrapezoidProfile<Distance>::State\<close> is declared outside the header; it is the
  aggregate of a position and a velocity. The unit wrappers around \<^verbatim>\<open>double\<close> carry no
  run-time content, and the command never computes with the numbers (it only passes
  them on and writes the literal zero), so a quantity is a \<^typ>\<open>real\<close>.
\<close>

record State =
  position :: real
  velocity :: real

type_synonym Subsystem = nat

text \<open>
  \<^verbatim>\<open>frc::ProfiledPIDController<Distance>\<close> is declared outside the header. The three
  member functions the command calls are parameters of the model, over an arbitrary
  type \<open>'c\<close> of controller states.
\<close>

record 'c controller_ops =
  Reset :: "'c \<Rightarrow> 'c"
  Calculate :: "real \<Rightarrow> State \<Rightarrow> 'c \<Rightarrow> real \<times> 'c"
  GetSetpoint :: "'c \<Rightarrow> State"

text \<open>
  What an observer of the collaborators sees: one event per call, with the arguments
  and the returned value.
\<close>

datatype event =
    EvMeasurement real
  | EvGoal State
  | EvCalculate real State real
  | EvGetSetpoint State
  | EvUseOutput real State
  | EvReset

text \<open>
  The callables. A \<^verbatim>\<open>std::function\<close> handed in by the caller is a function on the
  caller's world \<open>'w\<close> (it may read and change it). The header builds three lambdas of
  its own:
  \<^item> \<^verbatim>\<open>[goal] { return goal; }\<close> with a \<^verbatim>\<open>State\<close> captured by value (line 95),
  \<^item> \<^verbatim>\<open>[goal] { return goal; }\<close> with a distance captured by value (line 113),
  \<^item> \<^verbatim>\<open>[&goalSource]() { return State{goalSource(), 0_mps}; }\<close> (lines 76 to 78), which
    captures the constructor's by-value parameter \<^verbatim>\<open>goalSource\<close> by reference: the
    closure holds the address of that parameter object, not a copy of it.
\<close>

datatype 'w position_fn =
    UserPosition "'w \<Rightarrow> real \<times> 'w"
  | CapturedPosition real

datatype 'w goal_fn =
    UserGoal "'w \<Rightarrow> State \<times> 'w"
  | CapturedState State
  | LiftByRef nat

datatype error = DanglingReference

text \<open>
  The machine: the parameter objects that are alive (by address), the next free
  address, the caller's world and the trace of collaborator calls so far.
\<close>

record 'w machine =
  frames :: "nat \<rightharpoonup> 'w position_fn"
  next_addr :: nat
  world :: 'w
  trace :: "event list"

record ('c, 'w) ProfiledPIDCommand =
  m_controller :: 'c
  m_measurement :: "'w \<Rightarrow> real \<times> 'w"
  m_goal :: "'w goal_fn"
  m_useOutput :: "real \<Rightarrow> State \<Rightarrow> 'w \<Rightarrow> 'w"
  m_requirements :: "Subsystem list"

section \<open>Calling the callables\<close>

fun invoke_position :: "'w position_fn \<Rightarrow> 'w \<Rightarrow> real \<times> 'w" where
  "invoke_position (UserPosition f) w = f w"
| "invoke_position (CapturedPosition x) w = (x, w)"

text \<open>
  Calling through the reference of \<open>LiftByRef\<close> reads the parameter object at its
  address. Once that object is destroyed the call has no defined behaviour in C++; the
  model returns \<open>DanglingReference\<close>.
\<close>

fun invoke_goal :: "(nat \<rightharpoonup> 'w position_fn) \<Rightarrow> 'w goal_fn \<Rightarrow> 'w \<Rightarrow> error + (State \<times> 'w)" where
  "invoke_goal fr (UserGoal f) w = Inr (f w)"
| "invoke_goal fr (CapturedState s) w = Inr (s, w)"
| "invoke_goal fr (LiftByRef a) w =
     (case fr a of
        None \<Rightarrow> Inl DanglingReference
      | Some p \<Rightarrow> (case invoke_position p w of
                    (x, w') \<Rightarrow> Inr (\<lparr>position = x, velocity = 0\<rparr>, w')))"

fun goal_callable :: "(nat \<rightharpoonup> 'w position_fn) \<Rightarrow> 'w goal_fn \<Rightarrow> bool" where
  "goal_callable fr (UserGoal f) = True"
| "goal_callable fr (CapturedState s) = True"
| "goal_callable fr (LiftByRef a) = (fr a \<noteq> None)"

definition call_measurement ::
  "('c, 'w) ProfiledPIDCommand \<Rightarrow> 'w machine \<Rightarrow> real \<times> 'w machine" where
  "call_measurement cmd st =
     (case m_measurement cmd (world st) of
        (m, w) \<Rightarrow> (m, st\<lparr>world := w, trace := trace st @ [EvMeasurement m]\<rparr>))"

definition call_goal ::
  "('c, 'w) ProfiledPIDCommand \<Rightarrow> 'w machine \<Rightarrow> error + (State \<times> 'w machine)" where
  "call_goal cmd st =
     (case invoke_goal (frames st) (m_goal cmd) (world st) of
        Inl err \<Rightarrow> Inl err
      | Inr (g, w) \<Rightarrow> Inr (g, st\<lparr>world := w, trace := trace st @ [EvGoal g]\<rparr>))"

definition call_Calculate ::
  "'c controller_ops \<Rightarrow> real \<Rightarrow> State \<Rightarrow> ('c, 'w) ProfiledPIDCommand \<Rightarrow> 'w machine
     \<Rightarrow> real \<times> ('c, 'w) ProfiledPIDCommand \<times> 'w machine" where
  "call_Calculate ops m g cmd st =
     (case Calculate ops m g (m_controller cmd) of
        (e, c) \<Rightarrow> (e, cmd\<lparr>m_controller := c\<rparr>, st\<lparr>trace := trace st @ [EvCalculate m g e]\<rparr>))"

definition call_GetSetpoint ::
  "'c controller_ops \<Rightarrow> ('c, 'w) ProfiledPIDCommand \<Rightarrow> 'w machine \<Rightarrow> State \<times> 'w machine" where
  "call_GetSetpoint ops cmd st =
     (GetSetpoint ops (m_controller cmd),
      st\<lparr>trace := trace st @ [EvGetSetpoint (GetSetpoint ops (m_controller cmd))]\<rparr>)"

definition call_useOutput ::
  "real \<Rightarrow> State \<Rightarrow> ('c, 'w) ProfiledPIDCommand \<Rightarrow> 'w machine \<Rightarrow> 'w machine" where
  "call_useOutput e s cmd st =
     st\<lparr>world := m_useOutput cmd e s (world st), trace := trace st @ [EvUseOutput e s]\<rparr>"

section \<open>Lifecycle operations\<close>

text \<open>\<^verbatim>\<open>void Initialize() override { m_controller.Reset(); }\<close>\<close>

definition Initialize ::
  "'c controller_ops \<Rightarrow> ('c, 'w) ProfiledPIDCommand \<Rightarrow> 'w machine
     \<Rightarrow> ('c, 'w) ProfiledPIDCommand \<times> 'w machine" where
  "Initialize ops cmd st =
     (cmd\<lparr>m_controller := Reset ops (m_controller cmd)\<rparr>, st\<lparr>trace := trace st @ [EvReset]\<rparr>)"

text \<open>
  \<^verbatim>\<open>m_useOutput(m_controller.Calculate(m_measurement(), m_goal()), m_controller.GetSetpoint());\<close>

  C++ leaves the order in which the arguments of one call are evaluated to the
  compiler (each argument is evaluated completely before or after each other one, in an
  order the language does not fix). The expression has two calls with two arguments
  each, so there are two choices: \<open>inner\<close> orders \<^verbatim>\<open>m_measurement()\<close> and \<^verbatim>\<open>m_goal()\<close>,
  \<open>outer\<close> orders the \<^verbatim>\<open>Calculate\<close> call (with its arguments) and \<^verbatim>\<open>GetSetpoint()\<close>.
  The sink is called when both of its arguments are there.
\<close>

datatype arg_order = LeftToRight | RightToLeft

definition eval_Calculate ::
  "'c controller_ops \<Rightarrow> arg_order \<Rightarrow> ('c, 'w) ProfiledPIDCommand \<Rightarrow> 'w machine
     \<Rightarrow> error + (real \<times> ('c, 'w) ProfiledPIDCommand \<times> 'w machine)" where
  "eval_Calculate ops inner cmd st =
     (case inner of
        LeftToRight \<Rightarrow>
          (case call_measurement cmd st of
             (m, st1) \<Rightarrow>
               (case call_goal cmd st1 of
                  Inl err \<Rightarrow> Inl err
                | Inr (g, st2) \<Rightarrow> Inr (call_Calculate ops m g cmd st2)))
      | RightToLeft \<Rightarrow>
          (case call_goal cmd st of
             Inl err \<Rightarrow> Inl err
           | Inr (g, st1) \<Rightarrow>
               (case call_measurement cmd st1 of
                  (m, st2) \<Rightarrow> Inr (call_Calculate ops m g cmd st2))))"

definition Execute ::
  "'c controller_ops \<Rightarrow> arg_order \<Rightarrow> arg_order \<Rightarrow> ('c, 'w) ProfiledPIDCommand \<Rightarrow> 'w machine
     \<Rightarrow> error + (('c, 'w) ProfiledPIDCommand \<times> 'w machine)" where
  "Execute ops outer inner cmd st =
     (case outer of
        LeftToRight \<Rightarrow>
          (case eval_Calculate ops inner cmd st of
             Inl err \<Rightarrow> Inl err
           | Inr (e, cmd1, st1) \<Rightarrow>
               (case call_GetSetpoint ops cmd1 st1 of
                  (s, st2) \<Rightarrow> Inr (cmd1, call_useOutput e s cmd1 st2)))
      | RightToLeft \<Rightarrow>
          (case call_GetSetpoint ops cmd st of
             (s, st1) \<Rightarrow>
               (case eval_Calculate ops inner cmd st1 of
                  Inl err \<Rightarrow> Inl err
                | Inr (e, cmd1, st2) \<Rightarrow> Inr (cmd1, call_useOutput e s cmd1 st2))))"

text \<open>\<^verbatim>\<open>void End(bool interrupted) override { m_useOutput(0, State{Distance_t(0), Velocity_t(0)}); }\<close>\<close>

definition End ::
  "bool \<Rightarrow> ('c, 'w) ProfiledPIDCommand \<Rightarrow> 'w machine \<Rightarrow> 'w machine" where
  "End interrupted cmd st = call_useOutput 0 \<lparr>position = 0, velocity = 0\<rparr> cmd st"

definition GetController :: "('c, 'w) ProfiledPIDCommand \<Rightarrow> 'c" where
  "GetController cmd = m_controller cmd"

section \<open>Construction\<close>

text \<open>
  Modelled from the spec: \<^verbatim>\<open>CommandBase\<close> (\<^verbatim>\<open>AddRequirements\<close>, \<^verbatim>\<open>GetRequirements\<close> and the
  container behind them) is declared in \<^verbatim>\<open>frc2/command/CommandBase.h\<close>, which is not
  among the sources. The specification says that duplicates are allowed in the input,
  that each identifier is registered at most once, and that the reported set is the set
  of identifiers supplied.
\<close>

definition AddRequirements ::
  "Subsystem list \<Rightarrow> ('c, 'w) ProfiledPIDCommand \<Rightarrow> ('c, 'w) ProfiledPIDCommand" where
  "AddRequirements requirements cmd =
     cmd\<lparr>m_requirements := fold List.insert requirements (m_requirements cmd)\<rparr>"

definition GetRequirements :: "('c, 'w) ProfiledPIDCommand \<Rightarrow> Subsystem list" where
  "GetRequirements cmd = m_requirements cmd"

text \<open>
  Lines 48 to 58: the canonical constructor stores the four collaborators and registers
  the requirements. It touches nothing of the machine.
\<close>

definition ProfiledPIDCommand_goalSource ::
  "'c \<Rightarrow> ('w \<Rightarrow> real \<times> 'w) \<Rightarrow> 'w goal_fn \<Rightarrow> (real \<Rightarrow> State \<Rightarrow> 'w \<Rightarrow> 'w) \<Rightarrow> Subsystem list
     \<Rightarrow> 'w machine \<Rightarrow> ('c, 'w) ProfiledPIDCommand \<times> 'w machine" where
  "ProfiledPIDCommand_goalSource controller measurementSource goalSource useOutput requirements st =
     (AddRequirements requirements
        \<lparr>m_controller = controller, m_measurement = measurementSource, m_goal = goalSource,
         m_useOutput = useOutput, m_requirements = []\<rparr>,
      st)"

text \<open>
  Lines 70 to 79: the parameter \<^verbatim>\<open>goalSource\<close> is an object of the constructor call. It is
  created when the call starts (at a fresh address), the lambda handed to the canonical
  constructor refers to it by that address, and it is destroyed when the call is over.
\<close>

definition ProfiledPIDCommand_positionSource ::
  "'c \<Rightarrow> ('w \<Rightarrow> real \<times> 'w) \<Rightarrow> 'w position_fn \<Rightarrow> (real \<Rightarrow> State \<Rightarrow> 'w \<Rightarrow> 'w) \<Rightarrow> Subsystem list
     \<Rightarrow> 'w machine \<Rightarrow> ('c, 'w) ProfiledPIDCommand \<times> 'w machine" where
  "ProfiledPIDCommand_positionSource controller measurementSource goalSource useOutput requirements st =
     (case ProfiledPIDCommand_goalSource controller measurementSource (LiftByRef (next_addr st))
             useOutput requirements
             (st\<lparr>frames := (frames st)(next_addr st \<mapsto> goalSource), next_addr := Suc (next_addr st)\<rparr>) of
        (cmd, st1) \<Rightarrow> (cmd, st1\<lparr>frames := (frames st1)(next_addr st := None)\<rparr>))"

text \<open>Lines 91 to 96: the lambda \<^verbatim>\<open>[goal] { return goal; }\<close> returns a \<^verbatim>\<open>State\<close>.\<close>

definition ProfiledPIDCommand_goalState ::
  "'c \<Rightarrow> ('w \<Rightarrow> real \<times> 'w) \<Rightarrow> State \<Rightarrow> (real \<Rightarrow> State \<Rightarrow> 'w \<Rightarrow> 'w) \<Rightarrow> Subsystem list
     \<Rightarrow> 'w machine \<Rightarrow> ('c, 'w) ProfiledPIDCommand \<times> 'w machine" where
  "ProfiledPIDCommand_goalState controller measurementSource goal useOutput requirements st =
     ProfiledPIDCommand_goalSource controller measurementSource (CapturedState goal)
       useOutput requirements st"

text \<open>
  Lines 108 to 114: here the lambda \<^verbatim>\<open>[goal] { return goal; }\<close> returns a distance. A
  distance does not convert to the aggregate \<^verbatim>\<open>State\<close>, so of the constructors the
  delegation can select, only the one whose third parameter is a callable returning a
  distance accepts it: the constructor of lines 70 to 79, where the zero velocity is
  added.
\<close>

definition ProfiledPIDCommand_goalPosition ::
  "'c \<Rightarrow> ('w \<Rightarrow> real \<times> 'w) \<Rightarrow> real \<Rightarrow> (real \<Rightarrow> State \<Rightarrow> 'w \<Rightarrow> 'w) \<Rightarrow> Subsystem list
     \<Rightarrow> 'w machine \<Rightarrow> ('c, 'w) ProfiledPIDCommand \<times> 'w machine" where
  "ProfiledPIDCommand_goalPosition controller measurementSource goal useOutput requirements st =
     ProfiledPIDCommand_positionSource controller measurementSource (CapturedPosition goal)
       useOutput requirements st"

section \<open>Sequences of lifecycle calls\<close>

datatype lifecycle_call = CallInitialize | CallExecute arg_order arg_order | CallEnd bool

fun lifecycle_step ::
  "'c controller_ops \<Rightarrow> lifecycle_call \<Rightarrow> ('c, 'w) ProfiledPIDCommand \<times> 'w machine
     \<Rightarrow> error + (('c, 'w) ProfiledPIDCommand \<times> 'w machine)" where
  "lifecycle_step ops CallInitialize (cmd, st) = Inr (Initialize ops cmd st)"
| "lifecycle_step ops (CallExecute outer inner) (cmd, st) = Execute ops outer inner cmd st"
| "lifecycle_step ops (CallEnd interrupted) (cmd, st) = Inr (cmd, End interrupted cmd st)"

fun lifecycle_run ::
  "'c controller_ops \<Rightarrow> lifecycle_call list \<Rightarrow> ('c, 'w) ProfiledPIDCommand \<times> 'w machine
     \<Rightarrow> error + (('c, 'w) ProfiledPIDCommand \<times> 'w machine)" where
  "lifecycle_run ops [] cs = Inr cs"
| "lifecycle_run ops (c # calls) cs =
     (case lifecycle_step ops c cs of
        Inl err \<Rightarrow> Inl err
      | Inr cs' \<Rightarrow> lifecycle_run ops calls cs')"

text \<open>
  The calls of a sequence that are carried out: a call that fails ends the run, and no
  later call is made.
\<close>

fun completed_calls ::
  "'c controller_ops \<Rightarrow> lifecycle_call list \<Rightarrow> ('c, 'w) ProfiledPIDCommand \<times> 'w machine
     \<Rightarrow> lifecycle_call list" where
  "completed_calls ops [] cs = []"
| "completed_calls ops (c # calls) cs =
     (case lifecycle_step ops c cs of
        Inl err \<Rightarrow> []
      | Inr cs' \<Rightarrow> c # completed_calls ops calls cs')"

fun is_tick :: "lifecycle_call \<Rightarrow> bool" where
  "is_tick (CallExecute outer inner) = True"
| "is_tick c = False"

text \<open>
  What a sequence of logged calls does to a controller: a Reset event applies
  \<open>Reset\<close>, a Calculate event applies \<open>Calculate\<close> with the logged arguments, and the
  other events leave the controller as it is (\<^verbatim>\<open>GetSetpoint\<close> reads it only).
\<close>

fun replay :: "'c controller_ops \<Rightarrow> event list \<Rightarrow> 'c \<Rightarrow> 'c" where
  "replay ops [] c = c"
| "replay ops (EvReset # evs) c = replay ops evs (Reset ops c)"
| "replay ops (EvCalculate m g e # evs) c = replay ops evs (snd (Calculate ops m g c))"
| "replay ops (ev # evs) c = replay ops evs c"

section \<open>Reading a trace\<close>

fun isMeasurement :: "event \<Rightarrow> bool" where
  "isMeasurement (EvMeasurement m) = True"
| "isMeasurement ev = False"

fun isGoal :: "event \<Rightarrow> bool" where
  "isGoal (EvGoal g) = True"
| "isGoal ev = False"

fun isCalculate :: "event \<Rightarrow> bool" where
  "isCalculate (EvCalculate m g e) = True"
| "isCalculate ev = False"

fun isGetSetpoint :: "event \<Rightarrow> bool" where
  "isGetSetpoint (EvGetSetpoint s) = True"
| "isGetSetpoint ev = False"

fun isUseOutput :: "event \<Rightarrow> bool" where
  "isUseOutput (EvUseOutput e s) = True"
| "isUseOutput ev = False"

section \<open>A test double\<close>

text \<open>
  The stub of scenario S1, made stateful the way a profiled controller is: the state
  is the current setpoint, \<open>Calculate\<close> returns 7 and advances the setpoint to
  \<open>State{3, 0.5}\<close>, \<open>Reset\<close> puts it back to zero.
\<close>

definition stub_ops :: "State controller_ops" where
  "stub_ops =
     \<lparr>Reset = (\<lambda>c. \<lparr>position = 0, velocity = 0\<rparr>),
      Calculate = (\<lambda>m g c. (7, \<lparr>position = 3, velocity = 1 / 2\<rparr>)),
      GetSetpoint = (\<lambda>c. c)\<rparr>"

definition machine0 :: "unit machine" where
  "machine0 = \<lparr>frames = Map.empty, next_addr = 0, world = (), trace = []\<rparr>"

definition state0 :: State where
  "state0 = \<lparr>position = 0, velocity = 0\<rparr>"

definition measure2 :: "unit \<Rightarrow> real \<times> unit" where
  "measure2 w = (2, w)"

definition goal10 :: "unit \<Rightarrow> State \<times> unit" where
  "goal10 w = (\<lparr>position = 10, velocity = 0\<rparr>, w)"

definition position5 :: "unit \<Rightarrow> real \<times> unit" where
  "position5 w = (5, w)"

definition lifted5 :: "unit \<Rightarrow> State \<times> unit" where
  "lifted5 w = (case position5 w of (x, w') \<Rightarrow> (\<lparr>position = x, velocity = 0\<rparr>, w'))"

definition sink0 :: "real \<Rightarrow> State \<Rightarrow> unit \<Rightarrow> unit" where
  "sink0 e s w = w"

definition command0 :: "(State, unit) ProfiledPIDCommand" where
  "command0 = fst (ProfiledPIDCommand_goalSource state0 measure2 (UserGoal goal10) sink0 [] machine0)"

section \<open>Unfolding the calls\<close>

lemmas call_defs =
  call_measurement_def call_goal_def call_Calculate_def call_GetSetpoint_def call_useOutput_def

lemmas ctor_defs =
  ProfiledPIDCommand_goalSource_def ProfiledPIDCommand_positionSource_def
  ProfiledPIDCommand_goalState_def ProfiledPIDCommand_goalPosition_def AddRequirements_def

lemmas stub_defs =
  command0_def stub_ops_def machine0_def state0_def measure2_def goal10_def position5_def
  lifted5_def sink0_def

lemma goal_callable_invoke:
  "goal_callable fr gf \<Longrightarrow> \<exists>g w'. invoke_goal fr gf w = Inr (g, w')"
  by (cases gf) (auto split: prod.splits)

lemma command0_callable: "goal_callable (frames machine0) (m_goal command0)"
  by (simp add: stub_defs ctor_defs)

section \<open>One tick, in each of the four evaluation orders\<close>

text \<open>
  With both argument lists evaluated from left to right, a tick is the sequence
  measurement, goal, Calculate, GetSetpoint, sink, and the setpoint handed to the sink is
  the one of the controller after Calculate.
\<close>

lemma Execute_LeftToRight_LeftToRight:
  assumes "m_measurement cmd (world st) = (m, w1)"
    and "invoke_goal (frames st) (m_goal cmd) w1 = Inr (g, w2)"
    and "Calculate ops m g (m_controller cmd) = (e, c)"
  shows "Execute ops LeftToRight LeftToRight cmd st =
           Inr (cmd\<lparr>m_controller := c\<rparr>,
                st\<lparr>world := m_useOutput cmd e (GetSetpoint ops c) w2,
                   trace := trace st @ [EvMeasurement m, EvGoal g, EvCalculate m g e,
                                        EvGetSetpoint (GetSetpoint ops c),
                                        EvUseOutput e (GetSetpoint ops c)]\<rparr>)"
  using assms by (simp add: Execute_def eval_Calculate_def call_defs)

lemma Execute_LeftToRight_RightToLeft:
  assumes "invoke_goal (frames st) (m_goal cmd) (world st) = Inr (g, w1)"
    and "m_measurement cmd w1 = (m, w2)"
    and "Calculate ops m g (m_controller cmd) = (e, c)"
  shows "Execute ops LeftToRight RightToLeft cmd st =
           Inr (cmd\<lparr>m_controller := c\<rparr>,
                st\<lparr>world := m_useOutput cmd e (GetSetpoint ops c) w2,
                   trace := trace st @ [EvGoal g, EvMeasurement m, EvCalculate m g e,
                                        EvGetSetpoint (GetSetpoint ops c),
                                        EvUseOutput e (GetSetpoint ops c)]\<rparr>)"
  using assms by (simp add: Execute_def eval_Calculate_def call_defs)

text \<open>
  With the arguments of the sink evaluated from right to left, GetSetpoint reads the
  controller before Calculate has advanced it.
\<close>

lemma Execute_RightToLeft_LeftToRight:
  assumes "m_measurement cmd (world st) = (m, w1)"
    and "invoke_goal (frames st) (m_goal cmd) w1 = Inr (g, w2)"
    and "Calculate ops m g (m_controller cmd) = (e, c)"
  shows "Execute ops RightToLeft LeftToRight cmd st =
           Inr (cmd\<lparr>m_controller := c\<rparr>,
                st\<lparr>world := m_useOutput cmd e (GetSetpoint ops (m_controller cmd)) w2,
                   trace := trace st @ [EvGetSetpoint (GetSetpoint ops (m_controller cmd)),
                                        EvMeasurement m, EvGoal g, EvCalculate m g e,
                                        EvUseOutput e (GetSetpoint ops (m_controller cmd))]\<rparr>)"
  using assms by (simp add: Execute_def eval_Calculate_def call_defs)

lemma Execute_RightToLeft_RightToLeft:
  assumes "invoke_goal (frames st) (m_goal cmd) (world st) = Inr (g, w1)"
    and "m_measurement cmd w1 = (m, w2)"
    and "Calculate ops m g (m_controller cmd) = (e, c)"
  shows "Execute ops RightToLeft RightToLeft cmd st =
           Inr (cmd\<lparr>m_controller := c\<rparr>,
                st\<lparr>world := m_useOutput cmd e (GetSetpoint ops (m_controller cmd)) w2,
                   trace := trace st @ [EvGetSetpoint (GetSetpoint ops (m_controller cmd)),
                                        EvGoal g, EvMeasurement m, EvCalculate m g e,
                                        EvUseOutput e (GetSetpoint ops (m_controller cmd))]\<rparr>)"
  using assms by (simp add: Execute_def eval_Calculate_def call_defs)

text \<open>
  What holds of a tick in every evaluation order, when the goal callable can be
  called: each collaborator is called exactly once, Calculate gets the two sampled
  values, the sink gets the effort of Calculate and the value of the one GetSetpoint
  call, the sink comes last, and there is no Reset.
\<close>

lemma Execute_ok:
  assumes "goal_callable (frames st) (m_goal cmd)"
  shows "\<exists>m g e c s evs w wm wm' wg wg'.
           Execute ops outer inner cmd st =
             Inr (cmd\<lparr>m_controller := c\<rparr>, st\<lparr>world := w, trace := trace st @ evs\<rparr>)
         \<and> m_measurement cmd wm = (m, wm')
         \<and> invoke_goal (frames st) (m_goal cmd) wg = Inr (g, wg')
         \<and> Calculate ops m g (m_controller cmd) = (e, c)
         \<and> replay ops evs (m_controller cmd) = c
         \<and> filter isMeasurement evs = [EvMeasurement m]
         \<and> filter isGoal evs = [EvGoal g]
         \<and> filter isCalculate evs = [EvCalculate m g e]
         \<and> filter isGetSetpoint evs = [EvGetSetpoint s]
         \<and> filter isUseOutput evs = [EvUseOutput e s]
         \<and> count_list evs EvReset = 0
         \<and> last evs = EvUseOutput e s"
proof -
  have a: "\<And>w. \<exists>g w'. invoke_goal (frames st) (m_goal cmd) w = Inr (g, w')"
    by (rule goal_callable_invoke[OF assms])
  show ?thesis
  proof (cases inner)
    case LeftToRight
    obtain m w1 where m: "m_measurement cmd (world st) = (m, w1)"
      by (cases "m_measurement cmd (world st)")
    obtain g w2 where g: "invoke_goal (frames st) (m_goal cmd) w1 = Inr (g, w2)"
      using a by blast
    obtain e c where e: "Calculate ops m g (m_controller cmd) = (e, c)"
      by (cases "Calculate ops m g (m_controller cmd)")
    show ?thesis
    proof (cases outer)
      case LeftToRight
      show ?thesis unfolding \<open>inner = LeftToRight\<close> \<open>outer = LeftToRight\<close>
        by (intro exI conjI, rule Execute_LeftToRight_LeftToRight[OF m g e], rule m, rule g, rule e)
          (simp_all add: e)
    next
      case RightToLeft
      show ?thesis unfolding \<open>inner = LeftToRight\<close> \<open>outer = RightToLeft\<close>
        by (intro exI conjI, rule Execute_RightToLeft_LeftToRight[OF m g e], rule m, rule g, rule e)
          (simp_all add: e)
    qed
  next
    case RightToLeft
    obtain g w1 where g: "invoke_goal (frames st) (m_goal cmd) (world st) = Inr (g, w1)"
      using a by blast
    obtain m w2 where m: "m_measurement cmd w1 = (m, w2)"
      by (cases "m_measurement cmd w1")
    obtain e c where e: "Calculate ops m g (m_controller cmd) = (e, c)"
      by (cases "Calculate ops m g (m_controller cmd)")
    show ?thesis
    proof (cases outer)
      case LeftToRight
      show ?thesis unfolding \<open>inner = RightToLeft\<close> \<open>outer = LeftToRight\<close>
        by (intro exI conjI, rule Execute_LeftToRight_RightToLeft[OF g m e], rule m, rule g, rule e)
          (simp_all add: e)
    next
      case RightToLeft
      show ?thesis unfolding \<open>inner = RightToLeft\<close> \<open>outer = RightToLeft\<close>
        by (intro exI conjI, rule Execute_RightToLeft_RightToLeft[OF g m e], rule m, rule g, rule e)
          (simp_all add: e)
    qed
  qed
qed

text \<open>A goal lambda whose referent is gone makes the tick fail, in every order.\<close>

lemma Execute_dangling:
  "m_goal cmd = LiftByRef a \<Longrightarrow> frames st a = None
   \<Longrightarrow> Execute ops outer inner cmd st = Inl DanglingReference"
  by (cases outer; cases inner)
    (simp_all add: Execute_def eval_Calculate_def call_defs split: prod.splits)

text \<open>
  C1. The claim: every \<open>Execute\<close> calls the sink once, with the effort returned by the
  tick's Calculate and with the setpoint returned by a GetSetpoint that is called after
  that Calculate. Evaluated on the stub of scenario S1 with the sink's arguments taken
  from right to left: the sink is called once with effort 7, but with the setpoint
  \<open>State{0, 0}\<close> that GetSetpoint returned before Calculate ran, while the controller left
  by Calculate answers \<open>State{3, 0.5}\<close>.
\<close>

theorem Execute_setpoint_before_Calculate:
  "Execute stub_ops RightToLeft LeftToRight command0 machine0 =
     Inr (command0\<lparr>m_controller := \<lparr>position = 3, velocity = 1 / 2\<rparr>\<rparr>,
          machine0\<lparr>trace := [EvGetSetpoint \<lparr>position = 0, velocity = 0\<rparr>, EvMeasurement 2,
                              EvGoal \<lparr>position = 10, velocity = 0\<rparr>,
                              EvCalculate 2 \<lparr>position = 10, velocity = 0\<rparr> 7,
                              EvUseOutput 7 \<lparr>position = 0, velocity = 0\<rparr>]\<rparr>)
   \<and> GetSetpoint stub_ops \<lparr>position = 3, velocity = 1 / 2\<rparr> = \<lparr>position = 3, velocity = 1 / 2\<rparr>"
  by (simp add: Execute_def eval_Calculate_def call_defs stub_defs ctor_defs)

text \<open>
  C2. The claim: within every \<open>Execute\<close> the steps occur in the order measurement, goal,
  Calculate, GetSetpoint, sink. Evaluated on the stub of scenario S1 with both argument
  lists taken from right to left, the order is GetSetpoint, goal, measurement,
  Calculate, sink.
\<close>

theorem Execute_order_right_to_left:
  "Execute stub_ops RightToLeft RightToLeft command0 machine0 =
     Inr (command0\<lparr>m_controller := \<lparr>position = 3, velocity = 1 / 2\<rparr>\<rparr>,
          machine0\<lparr>trace := [EvGetSetpoint \<lparr>position = 0, velocity = 0\<rparr>,
                              EvGoal \<lparr>position = 10, velocity = 0\<rparr>, EvMeasurement 2,
                              EvCalculate 2 \<lparr>position = 10, velocity = 0\<rparr> 7,
                              EvUseOutput 7 \<lparr>position = 0, velocity = 0\<rparr>]\<rparr>)"
  by (simp add: Execute_def eval_Calculate_def call_defs stub_defs ctor_defs)

text \<open>
  C3. The claim: within every single \<open>Execute\<close> the measurement source and the goal
  source are each called exactly once, and the values they return are the arguments of
  Calculate. Evaluated on the command of scenario S2, built from a position-valued goal
  source: in each of the four evaluation orders the tick stops at the goal lambda, whose
  referent is destroyed, so the goal source is not called and Calculate receives
  nothing. (For a command whose goal callable can be called the claim holds in every
  order, see \<open>Execute_ok\<close>.)
\<close>

theorem Execute_goal_not_sampled:
  "Execute stub_ops LeftToRight LeftToRight
     (fst (ProfiledPIDCommand_positionSource state0 measure2 (UserPosition position5) sink0 [] machine0))
     (snd (ProfiledPIDCommand_positionSource state0 measure2 (UserPosition position5) sink0 [] machine0))
     = Inl DanglingReference
   \<and> Execute stub_ops LeftToRight RightToLeft
     (fst (ProfiledPIDCommand_positionSource state0 measure2 (UserPosition position5) sink0 [] machine0))
     (snd (ProfiledPIDCommand_positionSource state0 measure2 (UserPosition position5) sink0 [] machine0))
     = Inl DanglingReference
   \<and> Execute stub_ops RightToLeft LeftToRight
     (fst (ProfiledPIDCommand_positionSource state0 measure2 (UserPosition position5) sink0 [] machine0))
     (snd (ProfiledPIDCommand_positionSource state0 measure2 (UserPosition position5) sink0 [] machine0))
     = Inl DanglingReference
   \<and> Execute stub_ops RightToLeft RightToLeft
     (fst (ProfiledPIDCommand_positionSource state0 measure2 (UserPosition position5) sink0 [] machine0))
     (snd (ProfiledPIDCommand_positionSource state0 measure2 (UserPosition position5) sink0 [] machine0))
     = Inl DanglingReference"
  by (simp add: Execute_def eval_Calculate_def call_defs stub_defs ctor_defs)

section \<open>End and Initialize\<close>

text \<open>
  C4. Every \<open>End\<close>, for either value of the flag, calls the sink exactly once, with
  effort 0 and the State of position 0 and velocity 0, and calls nothing else: the trace
  grows by that one event (so there is no Calculate), and the controller is not touched
  (\<open>End\<close> returns no new command).
\<close>

theorem End_zero_output_once:
  "trace (End interrupted cmd st) = trace st @ [EvUseOutput 0 \<lparr>position = 0, velocity = 0\<rparr>]
   \<and> world (End interrupted cmd st) = m_useOutput cmd 0 \<lparr>position = 0, velocity = 0\<rparr> (world st)
   \<and> frames (End interrupted cmd st) = frames st"
  by (simp add: End_def call_useOutput_def)

text \<open>
  C5. Every \<open>Initialize\<close> gives the controller exactly one Reset and does nothing
  else: the trace grows by the one Reset event (no sink, measurement, goal or Calculate
  call, and any later Calculate comes after it), the caller's world is unchanged, and
  the command afterwards differs from the one before only in that its controller is the
  reset one.
\<close>

theorem Initialize_resets_once:
  "trace (snd (Initialize ops cmd st)) = trace st @ [EvReset]
   \<and> world (snd (Initialize ops cmd st)) = world st
   \<and> frames (snd (Initialize ops cmd st)) = frames st
   \<and> fst (Initialize ops cmd st) = cmd\<lparr>m_controller := Reset ops (m_controller cmd)\<rparr>"
  by (simp add: Initialize_def)

section \<open>Construction\<close>

lemma set_fold_insert: "set (fold List.insert xs ys) = set xs \<union> set ys"
  by (induction xs arbitrary: ys) auto

lemma distinct_fold_insert: "distinct ys \<Longrightarrow> distinct (fold List.insert xs ys)"
  by (induction xs arbitrary: ys) auto

lemma goalSource_requirements:
  "set (GetRequirements (fst (ProfiledPIDCommand_goalSource c ms gs uo requirements st)))
     = set requirements
   \<and> distinct (GetRequirements (fst (ProfiledPIDCommand_goalSource c ms gs uo requirements st)))"
  by (simp add: ProfiledPIDCommand_goalSource_def GetRequirements_def AddRequirements_def
        set_fold_insert distinct_fold_insert)

lemma positionSource_requirements:
  "set (GetRequirements (fst (ProfiledPIDCommand_positionSource c ms ps uo requirements st)))
     = set requirements
   \<and> distinct (GetRequirements (fst (ProfiledPIDCommand_positionSource c ms ps uo requirements st)))"
  by (simp add: ProfiledPIDCommand_positionSource_def ProfiledPIDCommand_goalSource_def
        GetRequirements_def AddRequirements_def set_fold_insert distinct_fold_insert)

lemma goalSource_frame:
  "snd (ProfiledPIDCommand_goalSource c ms gs uo rq st) = st
   \<and> m_controller (fst (ProfiledPIDCommand_goalSource c ms gs uo rq st)) = c
   \<and> m_measurement (fst (ProfiledPIDCommand_goalSource c ms gs uo rq st)) = ms
   \<and> m_goal (fst (ProfiledPIDCommand_goalSource c ms gs uo rq st)) = gs
   \<and> m_useOutput (fst (ProfiledPIDCommand_goalSource c ms gs uo rq st)) = uo"
  by (simp add: ProfiledPIDCommand_goalSource_def AddRequirements_def)

lemma positionSource_frame:
  "trace (snd (ProfiledPIDCommand_positionSource c ms ps uo rq st)) = trace st
   \<and> world (snd (ProfiledPIDCommand_positionSource c ms ps uo rq st)) = world st
   \<and> frames (snd (ProfiledPIDCommand_positionSource c ms ps uo rq st)) (next_addr st) = None
   \<and> m_controller (fst (ProfiledPIDCommand_positionSource c ms ps uo rq st)) = c
   \<and> m_goal (fst (ProfiledPIDCommand_positionSource c ms ps uo rq st)) = LiftByRef (next_addr st)"
  by (simp add: ProfiledPIDCommand_positionSource_def ProfiledPIDCommand_goalSource_def
        AddRequirements_def)

text \<open>
  C8. For each of the four construction forms and every list of requirements (empty
  or not, with or without duplicates), the requirements the command reports are, as a
  set, the identifiers supplied, and no identifier is registered twice.
\<close>

theorem requirements_registered_once:
  "set (GetRequirements (fst (ProfiledPIDCommand_goalSource c ms gs uo requirements st)))
     = set requirements
   \<and> distinct (GetRequirements (fst (ProfiledPIDCommand_goalSource c ms gs uo requirements st)))
   \<and> set (GetRequirements (fst (ProfiledPIDCommand_positionSource c ms ps uo requirements st)))
     = set requirements
   \<and> distinct (GetRequirements (fst (ProfiledPIDCommand_positionSource c ms ps uo requirements st)))
   \<and> set (GetRequirements (fst (ProfiledPIDCommand_goalState c ms g uo requirements st)))
     = set requirements
   \<and> distinct (GetRequirements (fst (ProfiledPIDCommand_goalState c ms g uo requirements st)))
   \<and> set (GetRequirements (fst (ProfiledPIDCommand_goalPosition c ms x uo requirements st)))
     = set requirements
   \<and> distinct (GetRequirements (fst (ProfiledPIDCommand_goalPosition c ms x uo requirements st)))"
  using goalSource_requirements[of c ms gs uo requirements st]
    goalSource_requirements[of c ms "CapturedState g" uo requirements st]
    positionSource_requirements[of c ms ps uo requirements st]
    positionSource_requirements[of c ms "CapturedPosition x" uo requirements st]
  by (simp add: ProfiledPIDCommand_goalState_def ProfiledPIDCommand_goalPosition_def)

text \<open>
  C9. None of the four construction forms calls a collaborator: the trace is the
  same after the construction as before (no Reset, Calculate, GetSetpoint, measurement,
  goal or sink call), the caller's world is unchanged, and the controller stored in the
  command is the controller that was passed in.
\<close>

theorem construction_calls_nothing:
  "trace (snd (ProfiledPIDCommand_goalSource c ms gs uo rq st)) = trace st
   \<and> world (snd (ProfiledPIDCommand_goalSource c ms gs uo rq st)) = world st
   \<and> m_controller (fst (ProfiledPIDCommand_goalSource c ms gs uo rq st)) = c
   \<and> trace (snd (ProfiledPIDCommand_positionSource c ms ps uo rq st)) = trace st
   \<and> world (snd (ProfiledPIDCommand_positionSource c ms ps uo rq st)) = world st
   \<and> m_controller (fst (ProfiledPIDCommand_positionSource c ms ps uo rq st)) = c
   \<and> trace (snd (ProfiledPIDCommand_goalState c ms g uo rq st)) = trace st
   \<and> world (snd (ProfiledPIDCommand_goalState c ms g uo rq st)) = world st
   \<and> m_controller (fst (ProfiledPIDCommand_goalState c ms g uo rq st)) = c
   \<and> trace (snd (ProfiledPIDCommand_goalPosition c ms x uo rq st)) = trace st
   \<and> world (snd (ProfiledPIDCommand_goalPosition c ms x uo rq st)) = world st
   \<and> m_controller (fst (ProfiledPIDCommand_goalPosition c ms x uo rq st)) = c"
  using goalSource_frame[of c ms gs uo rq st]
    goalSource_frame[of c ms "CapturedState g" uo rq st]
    positionSource_frame[of c ms ps uo rq st]
    positionSource_frame[of c ms "CapturedPosition x" uo rq st]
  by (simp add: ProfiledPIDCommand_goalState_def ProfiledPIDCommand_goalPosition_def)

section \<open>The goal after construction\<close>

text \<open>
  A command built from a position source, or from a constant position, leaves its
  constructor with a goal lambda that refers to a destroyed parameter: its first tick
  fails, whatever the arguments and the evaluation order.
\<close>

lemma positionSource_dangles:
  "Execute ops outer inner (fst (ProfiledPIDCommand_positionSource c ms ps uo rq st))
     (snd (ProfiledPIDCommand_positionSource c ms ps uo rq st)) = Inl DanglingReference"
  by (rule Execute_dangling[where a = "next_addr st"]) (simp_all add: positionSource_frame)

lemma goalPosition_dangles:
  "Execute ops outer inner (fst (ProfiledPIDCommand_goalPosition c ms x uo rq st))
     (snd (ProfiledPIDCommand_goalPosition c ms x uo rq st)) = Inl DanglingReference"
  unfolding ProfiledPIDCommand_goalPosition_def by (rule positionSource_dangles)

text \<open>
  A command built from a constant State passes that State to Calculate on a tick, in
  every evaluation order, and the command after the tick differs only in its
  controller, so the same holds of the next tick.
\<close>

lemma goalState_constant:
  "\<exists>m e c' st' evs.
     Execute ops outer inner (fst (ProfiledPIDCommand_goalState c ms g uo rq st)) st =
       Inr (fst (ProfiledPIDCommand_goalState c ms g uo rq st)\<lparr>m_controller := c'\<rparr>, st')
     \<and> trace st' = trace st @ evs
     \<and> filter isCalculate evs = [EvCalculate m g e]"
proof -
  let ?cmd = "fst (ProfiledPIDCommand_goalState c ms g uo rq st)"
  have mg: "m_goal ?cmd = CapturedState g"
    by (simp add: ProfiledPIDCommand_goalState_def goalSource_frame)
  then have h: "goal_callable (frames st) (m_goal ?cmd)" by simp
  obtain m g' e c' s evs w wm wm' wg wg' where
    x: "Execute ops outer inner ?cmd st =
          Inr (?cmd\<lparr>m_controller := c'\<rparr>, st\<lparr>world := w, trace := trace st @ evs\<rparr>)"
    and rg: "invoke_goal (frames st) (m_goal ?cmd) wg = Inr (g', wg')"
    and fc: "filter isCalculate evs = [EvCalculate m g' e]"
    using Execute_ok[OF h, of ops outer inner] by blast
  have t: "trace (st\<lparr>world := w, trace := trace st @ evs\<rparr>) = trace st @ evs" by simp
  from rg mg have "g' = g" by simp
  with x fc t show ?thesis by blast
qed

text \<open>
  C6. The claim: a command built from a position-valued goal source behaves like the
  canonical command built from the State-valued source that wraps the same function
  with velocity zero, so that Calculate receives \<open>State{position, 0}\<close> on every tick.
  Evaluated on scenario S2 (the position source returns 5): the first tick of the
  command built from the position source fails on the destroyed parameter and never
  reaches Calculate, while the first tick of the canonical command built from the
  wrapping source passes \<open>State{5, 0}\<close> to Calculate.
\<close>

theorem positionSource_first_tick:
  "Execute stub_ops LeftToRight LeftToRight
     (fst (ProfiledPIDCommand_positionSource state0 measure2 (UserPosition position5) sink0 [] machine0))
     (snd (ProfiledPIDCommand_positionSource state0 measure2 (UserPosition position5) sink0 [] machine0))
     = Inl DanglingReference
   \<and> map_sum id (trace \<circ> snd)
       (Execute stub_ops LeftToRight LeftToRight
          (fst (ProfiledPIDCommand_goalSource state0 measure2 (UserGoal lifted5) sink0 [] machine0))
          (snd (ProfiledPIDCommand_goalSource state0 measure2 (UserGoal lifted5) sink0 [] machine0)))
     = Inr [EvMeasurement 2, EvGoal \<lparr>position = 5, velocity = 0\<rparr>,
            EvCalculate 2 \<lparr>position = 5, velocity = 0\<rparr> 7,
            EvGetSetpoint \<lparr>position = 3, velocity = 1 / 2\<rparr>,
            EvUseOutput 7 \<lparr>position = 3, velocity = 1 / 2\<rparr>]"
  by (simp add: Execute_def eval_Calculate_def call_defs stub_defs ctor_defs)

text \<open>
  C7. The claim: a command built with a constant goal, a State or a bare position,
  passes that value (with velocity zero in the position case) to Calculate on every
  tick. Evaluated for the constant position 5: the first tick fails on the destroyed
  parameter and passes nothing to Calculate. (The State case holds, see
  \<open>goalState_constant\<close>.)
\<close>

theorem goalPosition_first_tick:
  "Execute stub_ops LeftToRight LeftToRight
     (fst (ProfiledPIDCommand_goalPosition state0 measure2 5 sink0 [] machine0))
     (snd (ProfiledPIDCommand_goalPosition state0 measure2 5 sink0 [] machine0))
     = Inl DanglingReference"
  by (simp add: Execute_def eval_Calculate_def call_defs stub_defs ctor_defs)

section \<open>Sequences of lifecycle calls and Reset\<close>

lemma replay_append: "replay ops (xs @ ys) c = replay ops ys (replay ops xs c)"
  by (induction ops xs c rule: replay.induct) simp_all

lemma Execute_Inr_callable:
  assumes "Execute ops outer inner cmd st = Inr r"
  shows "goal_callable (frames st) (m_goal cmd)"
proof (cases "m_goal cmd")
  case (LiftByRef a)
  show ?thesis
  proof (cases "frames st a")
    case None
    from Execute_dangling[OF LiftByRef None, of ops outer inner] assms show ?thesis by simp
  next
    case (Some p)
    with LiftByRef show ?thesis by simp
  qed
qed simp_all

text \<open>
  One lifecycle call that is carried out: it appends events to the trace, among them
  one Reset if the call is \<open>Initialize\<close> and none otherwise, and the controller
  afterwards is the one before with exactly the logged operations applied.
\<close>

lemma lifecycle_step_Inr:
  assumes "lifecycle_step ops c (cmd, st) = Inr (cmd', st')"
  shows "\<exists>evs. trace st' = trace st @ evs
           \<and> count_list evs EvReset = count_list [c] CallInitialize
           \<and> m_controller cmd' = replay ops evs (m_controller cmd)
           \<and> m_goal cmd' = m_goal cmd \<and> frames st' = frames st"
proof (cases c)
  case CallInitialize
  with assms have "cmd' = cmd\<lparr>m_controller := Reset ops (m_controller cmd)\<rparr>"
    and "st' = st\<lparr>trace := trace st @ [EvReset]\<rparr>"
    by (simp_all add: Initialize_def)
  then show ?thesis using CallInitialize by (intro exI[of _ "[EvReset]"]) simp
next
  case (CallExecute outer inner)
  with assms have x: "Execute ops outer inner cmd st = Inr (cmd', st')" by simp
  from Execute_Inr_callable[OF x] have h: "goal_callable (frames st) (m_goal cmd)" .
  obtain c' w evs where
    y: "Execute ops outer inner cmd st =
          Inr (cmd\<lparr>m_controller := c'\<rparr>, st\<lparr>world := w, trace := trace st @ evs\<rparr>)"
    and p: "replay ops evs (m_controller cmd) = c'"
    and r: "count_list evs EvReset = 0"
    using Execute_ok[OF h, of ops outer inner] by blast
  from x y have "cmd' = cmd\<lparr>m_controller := c'\<rparr>"
    and "st' = st\<lparr>world := w, trace := trace st @ evs\<rparr>" by simp_all
  then show ?thesis using CallExecute p r by (intro exI[of _ evs]) simp
next
  case (CallEnd interrupted)
  with assms have "cmd' = cmd"
    and "st' = st\<lparr>world := m_useOutput cmd 0 \<lparr>position = 0, velocity = 0\<rparr> (world st),
                   trace := trace st @ [EvUseOutput 0 \<lparr>position = 0, velocity = 0\<rparr>]\<rparr>"
    by (auto simp add: End_def call_useOutput_def)
  then show ?thesis using CallEnd
    by (intro exI[of _ "[EvUseOutput 0 \<lparr>position = 0, velocity = 0\<rparr>]"]) simp
qed

text \<open>A lifecycle call fails exactly when it is a tick of a command whose goal lambda dangles.\<close>

lemma lifecycle_step_Inl:
  "(\<exists>err. lifecycle_step ops c (cmd, st) = Inl err)
     = (is_tick c \<and> \<not> goal_callable (frames st) (m_goal cmd))"
proof (cases c)
  case (CallExecute outer inner)
  show ?thesis
  proof (cases "goal_callable (frames st) (m_goal cmd)")
    case True
    from Execute_ok[OF True, of ops outer inner] obtain r where
      "Execute ops outer inner cmd st = Inr r" by blast
    with True CallExecute show ?thesis by simp
  next
    case False
    have "\<exists>err. Execute ops outer inner cmd st = Inl err"
    proof (cases "Execute ops outer inner cmd st")
      case (Inr r)
      from Execute_Inr_callable[OF Inr] False show ?thesis by simp
    qed simp
    with False CallExecute show ?thesis by simp
  qed
qed simp_all

text \<open>
  C10. For every command, every machine state and every sequence of lifecycle calls,
  with every tick in any evaluation order: over the calls that are carried out, the
  controller receives exactly as many Resets as there are \<open>Initialize\<close> calls, and its
  state at the end is the state at the start with exactly the logged Reset and
  Calculate operations applied, in their order. So a Reset is applied by
  \<open>Initialize\<close> and by nothing else: \<open>Execute\<close> and \<open>End\<close> neither log nor apply one.
  All calls of the sequence are carried out when the goal callable can be called;
  otherwise the run stops at the first tick (which fails on the destroyed parameter),
  and the calls before it are carried out.
\<close>

theorem Reset_exactly_on_Initialize:
  "\<exists>cmd' st' evs.
      lifecycle_run ops (completed_calls ops calls (cmd, st)) (cmd, st) = Inr (cmd', st')
    \<and> trace st' = trace st @ evs
    \<and> count_list evs EvReset = count_list (completed_calls ops calls (cmd, st)) CallInitialize
    \<and> m_controller cmd' = replay ops evs (m_controller cmd)
    \<and> completed_calls ops calls (cmd, st) =
        (if goal_callable (frames st) (m_goal cmd) then calls
         else takeWhile (Not \<circ> is_tick) calls)"
proof (induction calls arbitrary: cmd st)
  case Nil
  show ?case by (intro exI[of _ cmd] exI[of _ st] exI[of _ "[]"]) simp
next
  case (Cons c calls)
  show ?case
  proof (cases "lifecycle_step ops c (cmd, st)")
    case (Inl err)
    then have t: "is_tick c" and d: "\<not> goal_callable (frames st) (m_goal cmd)"
      using lifecycle_step_Inl[of ops c cmd st] by blast+
    show ?thesis using Inl t d
      by (intro exI[of _ cmd] exI[of _ st] exI[of _ "[]"]) simp
  next
    case (Inr cs1)
    obtain cmd1 st1 where cs1: "cs1 = (cmd1, st1)" by (cases cs1)
    from Inr cs1 have s: "lifecycle_step ops c (cmd, st) = Inr (cmd1, st1)" by simp
    from lifecycle_step_Inr[OF s] obtain evs1 where
      t1: "trace st1 = trace st @ evs1"
      and n1: "count_list evs1 EvReset = count_list [c] CallInitialize"
      and p1: "m_controller cmd1 = replay ops evs1 (m_controller cmd)"
      and g1: "m_goal cmd1 = m_goal cmd" and f1: "frames st1 = frames st"
      by blast
    from Cons.IH[of cmd1 st1] obtain cmd' st' evs2 where
      r2: "lifecycle_run ops (completed_calls ops calls (cmd1, st1)) (cmd1, st1) = Inr (cmd', st')"
      and t2: "trace st' = trace st1 @ evs2"
      and n2: "count_list evs2 EvReset =
                 count_list (completed_calls ops calls (cmd1, st1)) CallInitialize"
      and p2: "m_controller cmd' = replay ops evs2 (m_controller cmd1)"
      and k2: "completed_calls ops calls (cmd1, st1) =
                 (if goal_callable (frames st1) (m_goal cmd1) then calls
                  else takeWhile (Not \<circ> is_tick) calls)"
      by blast
    have nt: "\<not> goal_callable (frames st) (m_goal cmd) \<Longrightarrow> \<not> is_tick c"
      using lifecycle_step_Inl[of ops c cmd st] s by auto
    have cc: "completed_calls ops (c # calls) (cmd, st) = c # completed_calls ops calls (cmd1, st1)"
      using s by simp
    have a: "lifecycle_run ops (completed_calls ops (c # calls) (cmd, st)) (cmd, st) = Inr (cmd', st')"
      using cc s r2 by simp
    have b: "trace st' = trace st @ (evs1 @ evs2)" using t1 t2 by simp
    have c: "count_list (evs1 @ evs2) EvReset =
               count_list (completed_calls ops (c # calls) (cmd, st)) CallInitialize"
      using cc n1 n2 by simp
    have d: "m_controller cmd' = replay ops (evs1 @ evs2) (m_controller cmd)"
      using p1 p2 by (simp add: replay_append)
    have e: "completed_calls ops (c # calls) (cmd, st) =
               (if goal_callable (frames st) (m_goal cmd) then c # calls
                else takeWhile (Not \<circ> is_tick) (c # calls))"
      using cc k2 g1 f1 nt by simp
    from a b c d e show ?thesis by blast
  qed
qed

text \<open>
  The theorem of C10 on the command of scenario S1 and the calls Initialize, two ticks
  (one in each extreme order), End and a second Initialize: all five calls are carried
  out, and the trace holds two Resets.
\<close>

theorem Reset_exactly_on_Initialize_witness:
  "\<exists>cmd' st'.
     lifecycle_run stub_ops
       [CallInitialize, CallExecute LeftToRight LeftToRight,
        CallExecute RightToLeft RightToLeft, CallEnd True, CallInitialize]
       (command0, machine0) = Inr (cmd', st')
   \<and> count_list (trace st') EvReset = 2"
proof -
  let ?calls = "[CallInitialize, CallExecute LeftToRight LeftToRight,
                 CallExecute RightToLeft RightToLeft, CallEnd True, CallInitialize]"
  from Reset_exactly_on_Initialize[of stub_ops ?calls command0 machine0]
  obtain cmd' st' evs where
    r: "lifecycle_run stub_ops (completed_calls stub_ops ?calls (command0, machine0))
          (command0, machine0) = Inr (cmd', st')"
    and t: "trace st' = trace machine0 @ evs"
    and n: "count_list evs EvReset =
              count_list (completed_calls stub_ops ?calls (command0, machine0)) CallInitialize"
    and k: "completed_calls stub_ops ?calls (command0, machine0) =
              (if goal_callable (frames machine0) (m_goal command0) then ?calls
               else takeWhile (Not \<circ> is_tick) ?calls)"
    by blast
  from k command0_callable
  have k': "completed_calls stub_ops ?calls (command0, machine0) = ?calls" by simp
  from t n have "count_list (trace st') EvReset = 2"
    unfolding k' by (simp add: machine0_def)
  with r show ?thesis unfolding k' by blast
qed

text \<open>
  The same theorem read on a command built from a position source: Initialize and End
  are carried out, the tick is not, and the run ends there.
\<close>

lemma completed_calls_dangling:
  "completed_calls stub_ops
     [CallInitialize, CallEnd False, CallExecute LeftToRight LeftToRight, CallInitialize]
     (ProfiledPIDCommand_positionSource state0 measure2 (UserPosition position5) sink0 [] machine0)
   = [CallInitialize, CallEnd False]"
  by (simp add: Initialize_def End_def Execute_def eval_Calculate_def call_defs stub_defs
        ctor_defs)

end
